theory Spec2Isabelle
  imports Main
begin

section \<open>Python values shared by the two modules\<close>

text \<open>
  The exceptions that the modelled code can raise. \<open>KeyError\<close> carries the missing key,
  \<open>NameError\<close> the unbound name. \<open>TypeError\<close> is what a call raises whose arguments
  do not fit the function's parameters, \<open>ProcessLookupError\<close> what asyncio raises for a
  signal to a process that is gone. \<open>OtherError\<close> stands for any other exception of the
  environment (a failed subprocess spawn, a lost store connection).
\<close>

datatype error =
    KeyError string
  | IndexError
  | NameError string
  | NotImplementedError
  | UnicodeDecodeError
  | CancelledError
  | TypeError
  | ProcessLookupError
  | OtherError string

text \<open>Python's \<open>str(n)\<close> / \<open>'{0}'.format(n)\<close> for an integer: decimal digits, a leading minus sign.\<close>

definition digit_char :: "nat \<Rightarrow> char" where
  "digit_char d =
     (if d = 0 then CHR ''0'' else if d = 1 then CHR ''1'' else if d = 2 then CHR ''2''
      else if d = 3 then CHR ''3'' else if d = 4 then CHR ''4'' else if d = 5 then CHR ''5''
      else if d = 6 then CHR ''6'' else if d = 7 then CHR ''7'' else if d = 8 then CHR ''8''
      else CHR ''9'')"

fun str_nat :: "nat \<Rightarrow> string" where
  "str_nat n = (if n < 10 then [digit_char n] else str_nat (n div 10) @ [digit_char (n mod 10)])"

definition str_int :: "int \<Rightarrow> string" where
  "str_int i = (if i < 0 then CHR ''-'' # str_nat (nat (- i)) else str_nat (nat i))"

text \<open>\<open>s.startswith(p)\<close>.\<close>

definition startswith :: "string \<Rightarrow> string \<Rightarrow> bool" where
  "startswith s p = (take (length p) s = p)"

text \<open>
  \<open>s.split(c)\<close> for a one-character separator: the pieces between the separators; the
  result is never empty (\<open>''.split(':') == ['']\<close>).
\<close>

fun str_split :: "char \<Rightarrow> string \<Rightarrow> string list" where
  "str_split c [] = [[]]"
| "str_split c (x # xs) =
     (if x = c then [] # str_split c xs
      else (case str_split c xs of [] \<Rightarrow> [[x]] | w # ws \<Rightarrow> (x # w) # ws))"

text \<open>\<open>s.split(c, maxsplit)\<close>: at most \<open>maxsplit\<close> cuts, from the left.\<close>

fun str_split_max :: "char \<Rightarrow> nat \<Rightarrow> string \<Rightarrow> string list" where
  "str_split_max c 0 s = [s]"
| "str_split_max c (Suc n) [] = [[]]"
| "str_split_max c (Suc n) (x # xs) =
     (if x = c then [] # str_split_max c n xs
      else (case str_split_max c (Suc n) xs of [] \<Rightarrow> [[x]] | w # ws \<Rightarrow> (x # w) # ws))"

text \<open>\<open>xs[i]\<close> for a non-negative index: IndexError out of range.\<close>

definition getitem :: "'a list \<Rightarrow> nat \<Rightarrow> error + 'a" where
  "getitem xs i = (if i < length xs then Inr (xs ! i) else Inl IndexError)"

text \<open>\<open>bs.decode('ascii')\<close>: fails on any byte above 127.\<close>

definition decode_ascii :: "string \<Rightarrow> error + string" where
  "decode_ascii bs =
     (if list_all (\<lambda>c. (of_char c :: nat) < 128) bs then Inr bs else Inl UnicodeDecodeError)"


section \<open>sorna/driver.py\<close>

text \<open>
  Modelled from the spec: \<open>sorna.structs\<close> (the module declaring \<open>Instance\<close> and
  \<open>Kernel\<close>) is not among the sources. An Instance has an identifier, a network address
  and backend-specific metadata (the control port \<open>docker_port\<close> that the driver reads); a
  Kernel has an identifier, a reference to its instance, an agent socket address and a
  driver-private handle. \<open>Kernel(id=..., instance=...)\<close> leaves the other two unset.
\<close>

record Instance =
  instance_id :: string
  ip :: string
  docker_port :: int

record Kernel =
  kernel_id :: string
  kernel_instance :: Instance
  agent_sock :: "string option"
  priv :: "string option"

definition new_Kernel :: "string \<Rightarrow> Instance \<Rightarrow> Kernel" where
  "new_Kernel i inst =
     \<lparr>kernel_id = i, kernel_instance = inst, agent_sock = None, priv = None\<rparr>"

text \<open>\<open>'tcp://{0}:{1}'.format(host, port)\<close>.\<close>

definition tcp_address :: "string \<Rightarrow> int \<Rightarrow> string" where
  "tcp_address host port = ''tcp://'' @ host @ '':'' @ str_int port"

subsection \<open>LocalDriver\<close>

text \<open>
  The calls the local driver makes on child processes. A process handle is a number.
  Each stands for a call that has returned: \<open>Exec\<close> is
  \<open>asyncio.create_subprocess_exec(*cmdargs)\<close> returning the handle, \<open>Terminate\<close> is
  \<open>proc.terminate()\<close> (the termination signal has been sent), and \<open>WaitExit p rc\<close> is
  \<open>proc.wait()\<close>: the process \<open>p\<close> has exited with return code \<open>rc\<close>.
\<close>

datatype os_call =
    Exec "string list" nat
  | Terminate nat
  | WaitExit nat int

text \<open>
  The driver object: \<open>self.agents\<close>, the dict from kernel id to process handle, together
  with the record of the process calls that have returned so far, in order.
\<close>

record LocalDriver =
  agents :: "string \<rightharpoonup> nat"
  os_calls :: "os_call list"

definition LocalDriver_init :: LocalDriver where
  "LocalDriver_init = \<lparr>agents = Map.empty, os_calls = []\<rparr>"


definition destroy_instance :: "string \<Rightarrow> LocalDriver \<Rightarrow> (error + unit) \<times> LocalDriver" where
  "destroy_instance inst_id s = (Inr (), s)"

text \<open>
  \<open>create_kernel\<close>. \<open>u\<close> is the UUID text drawn in this call and \<open>spawn\<close> the outcome of
  \<open>create_subprocess_exec\<close>: a process handle, or the exception it raised (which the
  method does not catch).
\<close>

definition create_kernel ::
  "string \<Rightarrow> (error + nat) \<Rightarrow> Instance \<Rightarrow> int \<Rightarrow> LocalDriver \<Rightarrow> (error + Kernel) \<times> LocalDriver" where
  "create_kernel u spawn inst agent_port s =
     (let kid = ''local/'' @ u;
          kernel = new_Kernel kid inst;
          cmdargs = [''/usr/bin/env'', ''python3'', ''-m'', ''sorna.agent'',
                     ''--kernel-id'', kid, ''--agent-port'', str_int agent_port]
      in case spawn of
           Inl e \<Rightarrow> (Inl e, s)
         | Inr proc \<Rightarrow>
             (let s1 = s\<lparr>os_calls := os_calls s @ [Exec cmdargs proc]\<rparr>;
                  kernel1 = kernel\<lparr>agent_sock := Some (tcp_address (ip inst) agent_port)\<rparr>;
                  s2 = s1\<lparr>agents := (agents s1)(kid \<mapsto> proc)\<rparr>
              in (Inr kernel1, s2)))"

text \<open>
  What \<open>yield from proc.wait()\<close> does: it returns the return code once the process has
  exited, it stays suspended for ever when the process never exits, or an exception is
  raised at this suspension point (the task is cancelled while it waits).
\<close>

datatype wait_outcome = Exits int | NeverExits | WaitRaises error

text \<open>
  \<open>destroy_kernel\<close>, statement by statement. \<open>term_raises\<close> is the exception that
  \<open>proc.terminate()\<close> raises, if any (asyncio raises ProcessLookupError when the process
  has already exited and been reaped), and \<open>wait\<close> is what \<open>proc.wait()\<close> does. No
  statement catches anything: an exception ends the call where it is raised. The result
  lists the driver state after each statement that has completed, and the outcome:
  \<open>None\<close> for a call that does not return, \<open>Some (Inl e)\<close> for one that raises \<open>e\<close>,
  \<open>Some (Inr ())\<close> for one that returns.
\<close>

definition destroy_kernel_trace ::
  "Kernel \<Rightarrow> error option \<Rightarrow> wait_outcome \<Rightarrow> LocalDriver
     \<Rightarrow> LocalDriver list \<times> (error + unit) option" where
  "destroy_kernel_trace kern term_raises wait s =
     (case agents s (kernel_id kern) of
        None \<Rightarrow> ([], Some (Inl (KeyError (kernel_id kern))))
      | Some proc \<Rightarrow>
          (case term_raises of
             Some e \<Rightarrow> ([], Some (Inl e))
           | None \<Rightarrow>
               (let s1 = s\<lparr>os_calls := os_calls s @ [Terminate proc]\<rparr>
                in case wait of
                     NeverExits \<Rightarrow> ([s1], None)
                   | WaitRaises e \<Rightarrow> ([s1], Some (Inl e))
                   | Exits rc \<Rightarrow>
                       (let s2 = s1\<lparr>os_calls := os_calls s1 @ [WaitExit proc rc]\<rparr>;
                            s3 = s2\<lparr>agents := (agents s2)(kernel_id kern := None)\<rparr>
                        in ([s1, s2, s3], Some (Inr ()))))))"

text \<open>The call as a whole: its outcome and the driver it leaves.\<close>

definition destroy_kernel ::
  "Kernel \<Rightarrow> error option \<Rightarrow> wait_outcome \<Rightarrow> LocalDriver
     \<Rightarrow> (error + unit) option \<times> LocalDriver" where
  "destroy_kernel kern term_raises wait s =
     (case destroy_kernel_trace kern term_raises wait s of (tr, r) \<Rightarrow> (r, last (s # tr)))"


subsection \<open>AWSDockerDriver\<close>

text \<open>
  The names bound in the module's global namespace when its body has run: the imports,
  the module-level assignments, the classes and the function. A name that a method reads
  and that is neither local to it, nor here, nor a builtin, raises NameError.
\<close>

definition module_globals :: "string list" where
  "module_globals =
     [''ABCMeta'', ''abstractmethod'', ''asyncio'', ''aiozmq'', ''Enum'', ''uuid'', ''Kernel'',
      ''__all__'', ''DriverTypes'', ''AgentPortRange'', ''BaseDriver'', ''AWSDockerDriver'',
      ''LocalDriver'', ''_driver_type_to_class'', ''create_driver'']"

definition load_global :: "string \<Rightarrow> error + unit" where
  "load_global n = (if n \<in> set module_globals then Inr () else Inl (NameError n))"

text \<open>
  \<open>AWSDockerDriver.create_kernel\<close>. \<open>container\<close> is the identifier of the container that
  \<open>cli.create_container\<close> would return. The first statement reads the global \<open>docker\<close>.
\<close>

definition aws_create_kernel :: "string \<Rightarrow> Instance \<Rightarrow> int \<Rightarrow> error + Kernel" where
  "aws_create_kernel container inst agent_port =
     (case load_global ''docker'' of
        Inl e \<Rightarrow> Inl e
      | Inr _ \<Rightarrow>
          (let kernel = new_Kernel container inst;
               kernel1 = kernel\<lparr>priv := Some container\<rparr>;
               kernel2 = kernel1\<lparr>kernel_id := ''docker-'' @ ip inst @ ''/'' @ container\<rparr>;
               kernel3 = kernel2\<lparr>agent_sock := Some (tcp_address (ip inst) agent_port)\<rparr>
           in Inr kernel3))"

text \<open>
  \<open>AWSDockerDriver.launch_instance\<close> reads the name \<open>sepc\<close> (the parameter is \<open>spec\<close>)
  before it raises NotImplementedError; the two destroy methods raise NotImplementedError.
\<close>

definition aws_launch_instance :: "string option \<Rightarrow> error + string \<times> string" where
  "aws_launch_instance spec =
     (case load_global ''sepc'' of Inl e \<Rightarrow> Inl e | Inr _ \<Rightarrow> Inl NotImplementedError)"

definition aws_destroy_instance :: "string \<Rightarrow> error + unit" where
  "aws_destroy_instance inst_id = Inl NotImplementedError"

definition aws_destroy_kernel :: "Kernel \<Rightarrow> error + unit" where
  "aws_destroy_kernel kern = Inl NotImplementedError"

subsection \<open>The factory\<close>

datatype driver_class = LocalDriver_class | AWSDockerDriver_class

datatype driver = Local LocalDriver | AWSDocker

text \<open>\<open>_driver_type_to_class\<close>, the dict literal.\<close>

definition driver_type_to_class :: "(string \<times> driver_class) list" where
  "driver_type_to_class = [(''local'', LocalDriver_class), (''aws_docker'', AWSDockerDriver_class)]"

text \<open>\<open>cls()\<close>: \<open>LocalDriver.__init__\<close> sets \<open>self.agents = dict()\<close>.\<close>

fun construct :: "driver_class \<Rightarrow> driver" where
  "construct LocalDriver_class = Local LocalDriver_init"
| "construct AWSDockerDriver_class = AWSDocker"

definition create_driver :: "string \<Rightarrow> error + driver" where
  "create_driver name =
     (case map_of driver_type_to_class name of
        None \<Rightarrow> Inl (KeyError name)
      | Some cls \<Rightarrow> Inr (construct cls))"




section \<open>sorna/gateway/events.py\<close>

subsection \<open>EventServer\<close>

text \<open>
  A registered callback is a callable (\<open>add_handler\<close> asserts it): either a coroutine
  function, for which \<open>asyncio.iscoroutinefunction\<close> holds, or any other callable. The
  string names the function object; two registrations of the same object carry the same
  value. A callable is never a coroutine object, so \<open>asyncio.iscoroutine\<close> is false on
  every registered callback.
\<close>

datatype callback = CoroutineFunction string | PlainCallable string

fun iscoroutinefunction :: "callback \<Rightarrow> bool" where
  "iscoroutinefunction (CoroutineFunction n) = True"
| "iscoroutinefunction (PlainCallable n) = False"

text \<open>
  What \<open>local_dispatch\<close> hands to the event loop: \<open>Task h args kwargs\<close> is
  \<open>asyncio.ensure_future(h(app, *args, **kwargs))\<close> and \<open>Handle h args kwargs\<close> is
  \<open>loop.call_soon(functools.partial(h, app, *args, **kwargs))\<close>. The first argument is
  always the server's \<open>app\<close> and is left out. The values passed are of any type \<open>'v\<close>.
\<close>

datatype 'v scheduled =
    Task callback "'v list" "(string \<times> 'v) list"
  | Handle callback "'v list" "(string \<times> 'v) list"

text \<open>
  The server object: \<open>self.handlers\<close>, a \<open>defaultdict(list)\<close>, and the units of work
  that the server has scheduled on the event loop so far, in scheduling order.
\<close>

record 'v EventServer =
  handlers :: "string \<rightharpoonup> callback list"
  ready :: "'v scheduled list"

definition EventServer_init :: "'v EventServer" where
  "EventServer_init = \<lparr>handlers = Map.empty, ready = []\<rparr>"

text \<open>
  \<open>d[k]\<close> on a \<open>defaultdict(list)\<close>: a missing key is first bound to a new empty list,
  which is the value returned. The result is the value and the dict after the lookup.
\<close>

definition defaultdict_getitem :: "('k \<rightharpoonup> 'a list) \<Rightarrow> 'k \<Rightarrow> 'a list \<times> ('k \<rightharpoonup> 'a list)" where
  "defaultdict_getitem m k = (case m k of None \<Rightarrow> ([], m(k \<mapsto> [])) | Some v \<Rightarrow> (v, m))"

definition add_handler :: "string \<Rightarrow> callback \<Rightarrow> 'v EventServer \<Rightarrow> 'v EventServer" where
  "add_handler event_name cb s =
     (case defaultdict_getitem (handlers s) event_name of
        (l, m) \<Rightarrow> s\<lparr>handlers := m(event_name \<mapsto> l @ [cb])\<rparr>)"

text \<open>
  The \<open>for\<close> loop of \<open>local_dispatch\<close> over the handlers found, extending the loop's
  queue. For a coroutine function the loop itself evaluates the call
  \<open>handler(app, *args, **kwargs)\<close>, which makes the coroutine object without running
  its body and raises TypeError when the arguments do not fit the function's parameters;
  the exception ends the loop, with the handlers before it scheduled and the later ones
  not. \<open>binds h args kwargs\<close> says that the arguments fit \<open>h\<close>. Any other callable is
  wrapped in a \<open>partial\<close> and not called here.
\<close>

fun schedule_handlers ::
  "(callback \<Rightarrow> 'v list \<Rightarrow> (string \<times> 'v) list \<Rightarrow> bool) \<Rightarrow> callback list \<Rightarrow> 'v list
     \<Rightarrow> (string \<times> 'v) list \<Rightarrow> 'v scheduled list \<Rightarrow> (error + unit) \<times> 'v scheduled list" where
  "schedule_handlers binds [] args kwargs q = (Inr (), q)"
| "schedule_handlers binds (handler # hs) args kwargs q =
     (if iscoroutinefunction handler then
        (if binds handler args kwargs
         then schedule_handlers binds hs args kwargs (q @ [Task handler args kwargs])
         else (Inl TypeError, q))
      else schedule_handlers binds hs args kwargs (q @ [Handle handler args kwargs]))"

text \<open>
  \<open>local_dispatch\<close> (the debug log line apart) and the RPC method \<open>dispatch\<close>: the
  outcome of the call and the server it leaves.
\<close>

definition local_dispatch ::
  "(callback \<Rightarrow> 'v list \<Rightarrow> (string \<times> 'v) list \<Rightarrow> bool) \<Rightarrow> string \<Rightarrow> 'v list
     \<Rightarrow> (string \<times> 'v) list \<Rightarrow> 'v EventServer \<Rightarrow> (error + unit) \<times> 'v EventServer" where
  "local_dispatch binds event_name args kwargs s =
     (case defaultdict_getitem (handlers s) event_name of
        (hs, m) \<Rightarrow>
          (case schedule_handlers binds hs args kwargs (ready s) of
             (r, q) \<Rightarrow> (r, s\<lparr>handlers := m, ready := q\<rparr>)))"

definition dispatch ::
  "(callback \<Rightarrow> 'v list \<Rightarrow> (string \<times> 'v) list \<Rightarrow> bool) \<Rightarrow> string \<Rightarrow> 'v list
     \<Rightarrow> (string \<times> 'v) list \<Rightarrow> 'v EventServer \<Rightarrow> (error + unit) \<times> 'v EventServer" where
  "dispatch binds event_name args kwargs s = local_dispatch binds event_name args kwargs s"

text \<open>The handlers registered under a name: the dict's entry, none when the key is missing.\<close>

definition registered :: "'v EventServer \<Rightarrow> string \<Rightarrow> callback list" where
  "registered s event_name = (case handlers s event_name of None \<Rightarrow> [] | Some l \<Rightarrow> l)"

subsection \<open>monitor\_redis\_events\<close>

text \<open>
  The calls the monitor makes on its store connection: \<open>aioredis.create_redis(addr)\<close>,
  \<open>config_set\<close>, \<open>psubscribe\<close>, \<open>channels[0].get\<close>, \<open>unsubscribe\<close>, \<open>close\<close> and
  \<open>wait_closed\<close>. The code makes no other; in particular it never calls
  \<open>punsubscribe\<close>.
\<close>

datatype store_call =
    CreateRedis string
  | ConfigSet string string
  | PSubscribe string
  | Get
  | Unsubscribe string
  | Close
  | WaitClosed

text \<open>
  What one \<open>await channels[0].get(encoding='utf8')\<close> yields: a message (the channel name
  as bytes, the expired key as text), \<open>None\<close>, or an exception raised at this suspension
  point; cancelling the task raises \<open>CancelledError\<close> there.
\<close>

datatype recv = Msg string string | Closed | Raises error

text \<open>
  \<open>chprefix\<close>. The module \<open>sorna.defs\<close> is not among the sources: the database number
  \<open>defs.SORNA_INSTANCE_DB\<close> is the parameter \<open>db\<close>.
\<close>

definition chprefix :: "nat \<Rightarrow> string" where
  "chprefix db = ''__keyevent@'' @ str_nat db @ ''__*''"

text \<open>
  The name of the channel on which the store publishes the key-event \<open>ev\<close> of database
  \<open>db\<close>; with the setting \<open>Ex\<close> the monitor asks for, the expiry notifications, on the
  channel of the event \<open>expired\<close>.
\<close>

definition keyevent_channel :: "nat \<Rightarrow> string \<Rightarrow> string" where
  "keyevent_channel db ev = ''__keyevent@'' @ str_nat db @ ''__:'' @ ev"

text \<open>
  The body of the \<open>while\<close> loop for a message \<open>(ch, evkey)\<close>. \<open>emit\<close> is the method
  \<open>app['event_server'].local_dispatch\<close> called with an event name and positional
  arguments, and \<open>bus\<close> the state it acts on; the call gives its outcome and the new
  state. The result is the outcome of the body and the state of the bus after it.
\<close>

definition monitor_step ::
  "(string \<Rightarrow> string list \<Rightarrow> 'b \<Rightarrow> (error + unit) \<times> 'b) \<Rightarrow> string \<Rightarrow> string \<Rightarrow> 'b
     \<Rightarrow> (error + unit) \<times> 'b" where
  "monitor_step emit ch evkey bus =
     (case decode_ascii ch of
        Inl e \<Rightarrow> (Inl e, bus)
      | Inr chs \<Rightarrow>
          (case getitem (str_split CHR '':'' chs) 1 of
             Inl e \<Rightarrow> (Inl e, bus)
           | Inr evname \<Rightarrow>
               if evname = ''expired'' \<and> startswith evkey ''shadow:'' then
                 (case getitem (str_split_max CHR '':'' 1 evkey) 1 of
                    Inl e \<Rightarrow> (Inl e, bus)
                  | Inr inst_id \<Rightarrow>
                      emit ''instance_terminated'' [''agent-lost'', inst_id] bus)
               else (Inr (), bus)))"

text \<open>
  How the \<open>while True\<close> loop is left: \<open>Break\<close> on \<open>None\<close>, \<open>Raised e\<close> by an exception;
  \<open>Waiting\<close> when the loop is still suspended in \<open>get\<close> after the outcomes given. The
  loop takes and gives the calls made on the store so far and the state of the bus.
\<close>

datatype loop_exit = Waiting | Break | Raised error

fun monitor_loop ::
  "(string \<Rightarrow> string list \<Rightarrow> 'b \<Rightarrow> (error + unit) \<times> 'b) \<Rightarrow> recv list \<Rightarrow> store_call list \<times> 'b
     \<Rightarrow> loop_exit \<times> store_call list \<times> 'b" where
  "monitor_loop emit [] (tr, bus) = (Waiting, tr @ [Get], bus)"
| "monitor_loop emit (Closed # rs) (tr, bus) = (Break, tr @ [Get], bus)"
| "monitor_loop emit (Raises e # rs) (tr, bus) = (Raised e, tr @ [Get], bus)"
| "monitor_loop emit (Msg ch evkey # rs) (tr, bus) =
     (case monitor_step emit ch evkey bus of
        (Inl e, bus') \<Rightarrow> (Raised e, tr @ [Get], bus')
      | (Inr u, bus') \<Rightarrow> monitor_loop emit rs (tr @ [Get], bus'))"

text \<open>
  Statements that call the store one after the other, none of them inside a \<open>try\<close> of
  its own: \<open>raises c\<close> is the exception that the call \<open>c\<close> raises, if any, and the first
  call that raises ends the sequence. The result is that exception, if any, and the
  calls made, the raising one included.
\<close>

fun store_calls ::
  "(store_call \<Rightarrow> error option) \<Rightarrow> store_call list \<Rightarrow> store_call list
     \<Rightarrow> error option \<times> store_call list" where
  "store_calls raises [] tr = (None, tr)"
| "store_calls raises (c # cs) tr =
     (case raises c of
        Some e \<Rightarrow> (Some e, tr @ [c])
      | None \<Rightarrow> store_calls raises cs (tr @ [c]))"

text \<open>
  \<open>monitor_redis_events\<close>, given the outcomes \<open>rs\<close> of its successive \<open>get\<close>s and what
  the other store calls raise. The result is the outcome of the coroutine (\<open>None\<close>
  while it is suspended in \<open>get\<close>, \<open>Some (Inr ())\<close> when it returns, \<open>Some (Inl e)\<close>
  when \<open>e\<close> leaves it), the calls made on the store connection, in order, and the state
  of the bus. The three calls before the \<open>try\<close> are not protected. \<open>except
  CancelledError: pass\<close> ends the \<open>try\<close> normally; any other exception of the loop
  leaves through \<open>finally\<close>. The \<open>finally\<close> block is three statements in sequence:
  an exception raised by one of them skips the rest and is what leaves the coroutine,
  whatever the loop's own outcome was.
\<close>

definition monitor_redis_events ::
  "(string \<Rightarrow> string list \<Rightarrow> 'b \<Rightarrow> (error + unit) \<times> 'b) \<Rightarrow> (store_call \<Rightarrow> error option)
     \<Rightarrow> string \<Rightarrow> nat \<Rightarrow> recv list \<Rightarrow> 'b \<Rightarrow> (error + unit) option \<times> store_call list \<times> 'b" where
  "monitor_redis_events emit raises addr db rs bus =
     (case store_calls raises
             [CreateRedis addr, ConfigSet ''notify-keyspace-events'' ''Ex'',
              PSubscribe (chprefix db)] [] of
        (Some e, tr) \<Rightarrow> (Some (Inl e), tr, bus)
      | (None, tr) \<Rightarrow>
          (case monitor_loop emit rs (tr, bus) of
             (Waiting, tr1, bus1) \<Rightarrow> (None, tr1, bus1)
           | (Break, tr1, bus1) \<Rightarrow>
               (case store_calls raises [Unsubscribe (chprefix db), Close, WaitClosed] tr1 of
                  (Some e', tr2) \<Rightarrow> (Some (Inl e'), tr2, bus1)
                | (None, tr2) \<Rightarrow> (Some (Inr ()), tr2, bus1))
           | (Raised e, tr1, bus1) \<Rightarrow>
               (case store_calls raises [Unsubscribe (chprefix db), Close, WaitClosed] tr1 of
                  (Some e', tr2) \<Rightarrow> (Some (Inl e'), tr2, bus1)
                | (None, tr2) \<Rightarrow>
                    (Some (if e = CancelledError then Inr () else Inl e), tr2, bus1))))"

text \<open>An outcome of \<open>get\<close> that ends the loop: \<open>None\<close> or an exception.\<close>

fun ends_loop :: "recv \<Rightarrow> bool" where
  "ends_loop (Msg ch evkey) = False"
| "ends_loop Closed = True"
| "ends_loop (Raises e) = True"

text \<open>
  The unit of work that \<open>local_dispatch\<close> schedules for one handler: a task for a
  coroutine function, a \<open>call_soon\<close> handle for any other callable.
\<close>

definition invocation :: "callback \<Rightarrow> 'v list \<Rightarrow> (string \<times> 'v) list \<Rightarrow> 'v scheduled" where
  "invocation h args kwargs =
     (if iscoroutinefunction h then Task h args kwargs else Handle h args kwargs)"

text \<open>A handler that the loop of \<open>local_dispatch\<close> gets past: it is not called there, or its call binds.\<close>

definition passes :: "(callback \<Rightarrow> 'v list \<Rightarrow> (string \<times> 'v) list \<Rightarrow> bool) \<Rightarrow> 'v list
     \<Rightarrow> (string \<times> 'v) list \<Rightarrow> callback \<Rightarrow> bool" where
  "passes binds args kwargs h = (if iscoroutinefunction h then binds h args kwargs else True)"


section \<open>Properties of the driver\<close>

subsection \<open>The local backend's instances\<close>






text \<open>
  C10. \<open>destroy_instance\<close> of the local driver returns for every identifier and every
  driver state, whether or not the identifier was ever launched, and also when it is
  called again on the same identifier; it raises nothing and the driver state, the
  kernel registry in particular, is the one it was called in.
\<close>

theorem destroy_instance_noop:
  "destroy_instance inst_id s = (Inr (), s)
   \<and> agents (snd (destroy_instance inst_id s)) = agents s
   \<and> destroy_instance inst_id (snd (destroy_instance inst_id s)) = (Inr (), s)"
  by (simp add: destroy_instance_def)

subsection \<open>The factory\<close>

lemma create_driver_cases:
  "create_driver name =
     (if name = ''local'' then Inr (Local LocalDriver_init)
      else if name = ''aws_docker'' then Inr AWSDocker
      else Inl (KeyError name))"
  by (simp add: create_driver_def driver_type_to_class_def)

text \<open>
  C2, as the code has it. \<open>create_driver name\<close> returns a constructed driver exactly when
  \<open>name\<close> is a key of the table, \<open>local\<close> or \<open>aws_docker\<close>; for every other name the
  dict lookup raises KeyError with that name.
\<close>

theorem create_driver_recognized:
  "((\<exists>d. create_driver name = Inr d) \<longleftrightarrow> name \<in> {''local'', ''aws_docker''})
   \<and> (name \<notin> {''local'', ''aws_docker''} \<longrightarrow> create_driver name = Inl (KeyError name))
   \<and> create_driver ''local'' = Inr (Local LocalDriver_init)
   \<and> create_driver ''aws_docker'' = Inr AWSDocker"
  by (simp add: create_driver_cases)

theorem create_driver_recognized_witness:
  "''ec2'' \<notin> {''local'', ''aws_docker''} \<and> create_driver ''ec2'' = Inl (KeyError ''ec2'')
   \<and> \<not> (\<exists>d. create_driver ''ec2'' = Inr d)"
  using create_driver_recognized [of "''ec2''"] by simp

text \<open>
  C2, as the claim states it, fails: the name \<open>cloud\<close> is not a key of the table, so
  \<open>create_driver\<close> raises KeyError for it, and the name \<open>aws_docker\<close>, outside the set
  \<open>{local, cloud}\<close>, yields a driver.
\<close>

theorem create_driver_cloud_counterexample:
  "create_driver ''cloud'' = Inl (KeyError ''cloud'') \<and> create_driver ''aws_docker'' = Inr AWSDocker"
  by (simp add: create_driver_cases)

subsection \<open>Kernels of the local backend\<close>

lemma destroy_kernel_trace_exits:
  assumes "agents s (kernel_id k) = Some p"
  shows "destroy_kernel_trace k None (Exits rc) s =
           ([s\<lparr>os_calls := os_calls s @ [Terminate p]\<rparr>,
             s\<lparr>os_calls := os_calls s @ [Terminate p, WaitExit p rc]\<rparr>,
             s\<lparr>agents := (agents s)(kernel_id k := None),
               os_calls := os_calls s @ [Terminate p, WaitExit p rc]\<rparr>],
            Some (Inr ()))"
  using assms by (simp add: destroy_kernel_trace_def Let_def)

lemma destroy_kernel_trace_never_exits:
  assumes "agents s (kernel_id k) = Some p"
  shows "destroy_kernel_trace k None NeverExits s
           = ([s\<lparr>os_calls := os_calls s @ [Terminate p]\<rparr>], None)"
  using assms by (simp add: destroy_kernel_trace_def)

lemma destroy_kernel_trace_wait_raises:
  assumes "agents s (kernel_id k) = Some p"
  shows "destroy_kernel_trace k None (WaitRaises e) s
           = ([s\<lparr>os_calls := os_calls s @ [Terminate p]\<rparr>], Some (Inl e))"
  using assms by (simp add: destroy_kernel_trace_def)

lemma destroy_kernel_trace_terminate_raises:
  assumes "agents s (kernel_id k) = Some p"
  shows "destroy_kernel_trace k (Some e) w s = ([], Some (Inl e))"
  using assms by (simp add: destroy_kernel_trace_def)

lemma destroy_kernel_trace_absent:
  assumes "agents s (kernel_id k) = None"
  shows "destroy_kernel_trace k t w s = ([], Some (Inl (KeyError (kernel_id k))))"
  using assms by (simp add: destroy_kernel_trace_def)

lemma destroy_kernel_trace_cases:
  assumes "agents s (kernel_id k) = Some p"
  obtains (term_raises) e where "t = Some e"
      and "destroy_kernel_trace k t w s = ([], Some (Inl e))"
  | (never_exits) "t = None" and "w = NeverExits"
      and "destroy_kernel_trace k t w s
             = ([s\<lparr>os_calls := os_calls s @ [Terminate p]\<rparr>], None)"
  | (wait_raises) e where "t = None" and "w = WaitRaises e"
      and "destroy_kernel_trace k t w s
             = ([s\<lparr>os_calls := os_calls s @ [Terminate p]\<rparr>], Some (Inl e))"
  | (exits) rc where "t = None" and "w = Exits rc"
      and "destroy_kernel_trace k t w s =
           ([s\<lparr>os_calls := os_calls s @ [Terminate p]\<rparr>,
             s\<lparr>os_calls := os_calls s @ [Terminate p, WaitExit p rc]\<rparr>,
             s\<lparr>agents := (agents s)(kernel_id k := None),
               os_calls := os_calls s @ [Terminate p, WaitExit p rc]\<rparr>],
            Some (Inr ()))"
proof (cases t)
  case (Some e)
  then show ?thesis
    using destroy_kernel_trace_terminate_raises [OF assms] term_raises by simp
next
  case None
  show ?thesis
  proof (cases w)
    case (Exits rc)
    then show ?thesis
      using None destroy_kernel_trace_exits [OF assms] exits by simp
  next
    case NeverExits
    then show ?thesis
      using None destroy_kernel_trace_never_exits [OF assms] never_exits by simp
  next
    case (WaitRaises e)
    then show ?thesis
      using None destroy_kernel_trace_wait_raises [OF assms] wait_raises by simp
  qed
qed

lemma destroy_kernel_success_removes:
  assumes "destroy_kernel k t w s = (Some (Inr ()), s')"
  shows "agents s' (kernel_id k) = None"
proof (cases "agents s (kernel_id k)")
  case None
  then show ?thesis
    using assms by (simp add: destroy_kernel_def destroy_kernel_trace_absent)
next
  case (Some p)
  then show ?thesis
    using assms by (cases rule: destroy_kernel_trace_cases [of s k p t w])
      (auto simp add: destroy_kernel_def)
qed

text \<open>
  C3. When a call \<open>destroy_kernel k\<close> on the local driver has returned, a second call
  for the same kernel, whatever its process and the process calls would do, raises
  KeyError with the kernel's identifier (the dict subscript of the first statement): the
  call ends at once, runs no statement after the lookup, makes no process call, and
  leaves the driver, its kernel registry included, as the first call left it, with no
  entry for the kernel.
\<close>

theorem destroy_kernel_twice_not_found:
  assumes "destroy_kernel k t w s = (Some (Inr ()), s')"
  shows "destroy_kernel k t' w' s' = (Some (Inl (KeyError (kernel_id k))), s')
       \<and> destroy_kernel_trace k t' w' s' = ([], Some (Inl (KeyError (kernel_id k))))
       \<and> agents s' (kernel_id k) = None"
proof -
  have gone: "agents s' (kernel_id k) = None"
    using assms by (rule destroy_kernel_success_removes)
  then have tr: "destroy_kernel_trace k t' w' s' = ([], Some (Inl (KeyError (kernel_id k))))"
    by (rule destroy_kernel_trace_absent)
  then have "destroy_kernel k t' w' s' = (Some (Inl (KeyError (kernel_id k))), s')"
    by (simp add: destroy_kernel_def)
  with tr gone show ?thesis
    by simp
qed

theorem destroy_kernel_twice_not_found_witness:
  "destroy_kernel (new_Kernel ''local/k1'' \<lparr>instance_id = ''i1'', ip = ''127.0.0.1'', docker_port = 0\<rparr>)
     None (Exits 0) \<lparr>agents = [''local/k1'' \<mapsto> 7], os_calls = []\<rparr>
     = (Some (Inr ()),
        \<lparr>agents = [''local/k1'' \<mapsto> 7](''local/k1'' := None),
         os_calls = [Terminate 7, WaitExit 7 0]\<rparr>)
   \<and> destroy_kernel (new_Kernel ''local/k1'' \<lparr>instance_id = ''i1'', ip = ''127.0.0.1'', docker_port = 0\<rparr>)
     None (Exits 0) \<lparr>agents = [''local/k1'' \<mapsto> 7](''local/k1'' := None),
               os_calls = [Terminate 7, WaitExit 7 0]\<rparr>
     = (Some (Inl (KeyError ''local/k1'')),
        \<lparr>agents = [''local/k1'' \<mapsto> 7](''local/k1'' := None),
         os_calls = [Terminate 7, WaitExit 7 0]\<rparr>)"
proof -
  have first: "destroy_kernel
      (new_Kernel ''local/k1'' \<lparr>instance_id = ''i1'', ip = ''127.0.0.1'', docker_port = 0\<rparr>)
      None (Exits 0) \<lparr>agents = [''local/k1'' \<mapsto> 7], os_calls = []\<rparr>
     = (Some (Inr ()),
        \<lparr>agents = [''local/k1'' \<mapsto> 7](''local/k1'' := None),
         os_calls = [Terminate 7, WaitExit 7 0]\<rparr>)"
    by (simp add: destroy_kernel_def destroy_kernel_trace_def new_Kernel_def)
  show ?thesis
    using first destroy_kernel_twice_not_found [OF first, of None "Exits 0"]
    by (simp add: new_Kernel_def)
qed






subsection \<open>The agent socket of a created kernel\<close>

lemma create_kernel_local_agent_sock:
  "create_kernel u (Inr proc) inst agent_port s =
     (Inr \<lparr>kernel_id = ''local/'' @ u, kernel_instance = inst,
           agent_sock = Some (''tcp://'' @ ip inst @ '':'' @ str_int agent_port), priv = None\<rparr>,
      s\<lparr>agents := (agents s)(''local/'' @ u \<mapsto> proc),
        os_calls := os_calls s @
          [Exec [''/usr/bin/env'', ''python3'', ''-m'', ''sorna.agent'', ''--kernel-id'',
                 ''local/'' @ u, ''--agent-port'', str_int agent_port] proc]\<rparr>)"
  by (simp add: create_kernel_def new_Kernel_def tcp_address_def Let_def)

lemma create_kernel_local_scenario:
  "fst (create_kernel ''16fd2706-8baf-433b-82eb-8c7fada847da'' (Inr 7)
          \<lparr>instance_id = ''i1'', ip = ''127.0.0.1'', docker_port = 0\<rparr> 5003 LocalDriver_init)
   = Inr \<lparr>kernel_id = ''local/16fd2706-8baf-433b-82eb-8c7fada847da'',
          kernel_instance = \<lparr>instance_id = ''i1'', ip = ''127.0.0.1'', docker_port = 0\<rparr>,
          agent_sock = Some ''tcp://127.0.0.1:5003'', priv = None\<rparr>"
  by (simp add: create_kernel_local_agent_sock str_int_def digit_char_def)

lemma create_kernel_local_spawn_fails:
  "create_kernel u (Inl e) inst agent_port s = (Inl e, s)"
  by (simp add: create_kernel_def)

lemma docker_unbound: "load_global ''docker'' = Inl (NameError ''docker'')"
  by (simp add: load_global_def module_globals_def)

text \<open>
  C8, for the cloud variant. \<open>AWSDockerDriver.create_kernel\<close> returns no Kernel: for
  every container, instance and port it raises NameError at its first statement, which
  reads the name \<open>docker\<close> that the module never binds. The statement that would set the
  agent socket from \<open>instance.ip\<close> and the port is never reached.
\<close>

theorem aws_create_kernel_name_error:
  "aws_create_kernel container inst agent_port = Inl (NameError ''docker'')"
  by (simp add: aws_create_kernel_def docker_unbound)


section \<open>Properties of the event bus and of the lease-expiry monitor\<close>

subsection \<open>The event bus\<close>

lemma schedule_handlers_eq:
  "schedule_handlers binds hs args kwargs q =
     (if list_all (passes binds args kwargs) hs then Inr () else Inl TypeError,
      q @ map (\<lambda>h. invocation h args kwargs) (takeWhile (passes binds args kwargs) hs))"
  by (induction hs arbitrary: q) (simp_all add: passes_def invocation_def)

lemma registered_add_handler:
  "registered (add_handler e cb s) n = (if n = e then registered s e @ [cb] else registered s n)"
  by (simp add: registered_def add_handler_def defaultdict_getitem_def split: option.splits)

lemma ready_add_handler: "ready (add_handler e cb s) = ready s"
  by (simp add: add_handler_def defaultdict_getitem_def split: option.splits)

lemma registered_local_dispatch:
  "registered (snd (local_dispatch binds e args kwargs s)) n = registered s n"
  by (simp add: registered_def local_dispatch_def defaultdict_getitem_def schedule_handlers_eq
      split: option.splits)

lemma ready_local_dispatch:
  "ready (snd (local_dispatch binds e args kwargs s)) =
     ready s @ map (\<lambda>h. invocation h args kwargs)
                   (takeWhile (passes binds args kwargs) (registered s e))"
  by (simp add: registered_def local_dispatch_def defaultdict_getitem_def schedule_handlers_eq
      split: option.splits)

lemma outcome_local_dispatch:
  "fst (local_dispatch binds e args kwargs s) =
     (if list_all (passes binds args kwargs) (registered s e) then Inr () else Inl TypeError)"
  by (simp add: registered_def local_dispatch_def defaultdict_getitem_def schedule_handlers_eq
      split: option.splits)

lemma handlers_local_dispatch:
  "handlers (snd (local_dispatch binds e args kwargs s)) =
     (case handlers s e of None \<Rightarrow> (handlers s)(e \<mapsto> []) | Some l \<Rightarrow> handlers s)"
  by (simp add: local_dispatch_def defaultdict_getitem_def schedule_handlers_eq
      split: option.splits)

lemma registered_init: "registered EventServer_init n = []"
  by (simp add: registered_def EventServer_init_def)

lemma ready_init: "ready EventServer_init = []"
  by (simp add: EventServer_init_def)






text \<open>
  C6. When no handler is registered under the name \<open>e\<close> (the key is missing from the
  dict, or bound to the empty list), \<open>local_dispatch\<close> returns, whatever the arguments
  and whatever calls would bind, without scheduling anything: the loop's queue is what
  it was, and so is the list of handlers registered under every name. The lookup of the
  \<open>defaultdict\<close> resolves the name to the empty list and binds the key to it; that is
  the only change to the server. The RPC method \<open>dispatch\<close> does the same.
\<close>

theorem dispatch_without_handlers:
  assumes "registered s e = []"
  shows "fst (local_dispatch binds e args kwargs s) = Inr ()
       \<and> ready (snd (local_dispatch binds e args kwargs s)) = ready s
       \<and> (\<forall>n. registered (snd (local_dispatch binds e args kwargs s)) n = registered s n)
       \<and> handlers (snd (local_dispatch binds e args kwargs s)) = (handlers s)(e \<mapsto> [])
       \<and> dispatch binds e args kwargs s = local_dispatch binds e args kwargs s"
proof -
  have o: "fst (local_dispatch binds e args kwargs s) = Inr ()"
    using assms by (simp add: outcome_local_dispatch)
  have a: "ready (snd (local_dispatch binds e args kwargs s)) = ready s"
    using assms by (simp add: ready_local_dispatch)
  have b: "\<forall>n. registered (snd (local_dispatch binds e args kwargs s)) n = registered s n"
    by (simp add: registered_local_dispatch)
  have c: "handlers (snd (local_dispatch binds e args kwargs s)) = (handlers s)(e \<mapsto> [])"
    using assms
    by (auto simp add: handlers_local_dispatch registered_def split: option.splits)
  have d: "dispatch binds e args kwargs s = local_dispatch binds e args kwargs s"
    by (simp add: dispatch_def)
  from o a b c d show ?thesis
    by blast
qed

theorem dispatch_without_handlers_witness:
  "registered (add_handler ''e'' (PlainCallable ''h1'') (EventServer_init :: string EventServer))
      ''instance_terminated'' = []
   \<and> fst (local_dispatch (\<lambda>h a k. False) ''instance_terminated'' [''agent-lost'', ''inst-42''] []
        (add_handler ''e'' (PlainCallable ''h1'') EventServer_init)) = Inr ()
   \<and> ready (snd (local_dispatch (\<lambda>h a k. False) ''instance_terminated''
        [''agent-lost'', ''inst-42''] []
        (add_handler ''e'' (PlainCallable ''h1'') EventServer_init))) = []
   \<and> registered (snd (local_dispatch (\<lambda>h a k. False) ''instance_terminated''
        [''agent-lost'', ''inst-42''] []
        (add_handler ''e'' (PlainCallable ''h1'') EventServer_init))) ''e'' = [PlainCallable ''h1'']"
proof -
  have none: "registered (add_handler ''e'' (PlainCallable ''h1'') (EventServer_init :: string EventServer))
      ''instance_terminated'' = []"
    by (simp add: registered_add_handler registered_init)
  show ?thesis
    using none dispatch_without_handlers [OF none, of "\<lambda>h a k. False"
        "[''agent-lost'', ''inst-42'']" "[]"]
    by (simp add: registered_add_handler ready_add_handler registered_init ready_init)
qed

subsection \<open>The loop body of the monitor\<close>

lemma digit_char_not_colon: "digit_char d \<noteq> CHR '':''"
  by (simp add: digit_char_def)

lemma digit_char_ascii: "(of_char (digit_char d) :: nat) < 128"
  by (simp add: digit_char_def)

lemma str_nat_no_colon: "CHR '':'' \<notin> set (str_nat n)"
proof (induction n rule: str_nat.induct)
  case (1 n)
  show ?case
  proof (cases "n < 10")
    case True
    then show ?thesis
      using digit_char_not_colon [of n] by (subst str_nat.simps) auto
  next
    case False
    then show ?thesis
      using 1 digit_char_not_colon [of "n mod 10"] by (subst str_nat.simps) auto
  qed
qed

lemma str_nat_ascii: "list_all (\<lambda>c. (of_char c :: nat) < 128) (str_nat n)"
proof (induction n rule: str_nat.induct)
  case (1 n)
  show ?case
  proof (cases "n < 10")
    case True
    then show ?thesis
      using digit_char_ascii [of n] by (subst str_nat.simps) simp
  next
    case False
    then show ?thesis
      using 1 digit_char_ascii [of "n mod 10"] by (subst str_nat.simps) simp
  qed
qed

lemma str_split_first:
  "c \<notin> set xs \<Longrightarrow> str_split c (xs @ c # ys) = xs # str_split c ys"
  by (induction xs) auto

lemma str_split_none: "c \<notin> set xs \<Longrightarrow> str_split c xs = [xs]"
  by (induction xs) auto

lemma split_keyevent:
  "str_split CHR '':'' (keyevent_channel db ''expired'') =
     [''__keyevent@'' @ str_nat db @ ''__'', ''expired'']"
proof -
  have "CHR '':'' \<notin> set (''__keyevent@'' @ str_nat db @ ''__'')"
    using str_nat_no_colon [of db] by simp
  then have "str_split CHR '':'' ((''__keyevent@'' @ str_nat db @ ''__'') @ CHR '':'' # ''expired'')
      = (''__keyevent@'' @ str_nat db @ ''__'') # str_split CHR '':'' ''expired''"
    by (rule str_split_first)
  then show ?thesis
    by (simp add: keyevent_channel_def)
qed

lemma decode_keyevent:
  "decode_ascii (keyevent_channel db ''expired'') = Inr (keyevent_channel db ''expired'')"
  using str_nat_ascii [of db] by (simp add: decode_ascii_def keyevent_channel_def)

lemma evname_expired:
  "monitor_step emit (keyevent_channel db ''expired'') evkey bus =
     (if startswith evkey ''shadow:'' then
        (case getitem (str_split_max CHR '':'' 1 evkey) 1 of
           Inl e \<Rightarrow> (Inl e, bus)
         | Inr inst_id \<Rightarrow> emit ''instance_terminated'' [''agent-lost'', inst_id] bus)
      else (Inr (), bus))"
  by (simp add: monitor_step_def decode_keyevent split_keyevent getitem_def)

lemma monitor_step_expired_shadow:
  "monitor_step emit (keyevent_channel db ''expired'') (''shadow:'' @ inst_id) bus
     = emit ''instance_terminated'' [''agent-lost'', inst_id] bus"
  by (simp add: evname_expired startswith_def getitem_def)

lemma monitor_step_on_event_server:
  "monitor_step (\<lambda>n a. local_dispatch binds n a []) (keyevent_channel db ''expired'')
      (''shadow:'' @ inst_id) srv
     = local_dispatch binds ''instance_terminated'' [''agent-lost'', inst_id] [] srv"
  by (rule monitor_step_expired_shadow)





subsection \<open>The exits of the monitor\<close>

lemma monitor_loop_gets:
  "monitor_loop emit rs (tr, bus) = (ex, tr', bus') \<Longrightarrow> \<exists>n. tr' = tr @ replicate (Suc n) Get"
proof (induction rs arbitrary: tr bus)
  case Nil
  then have "tr' = tr @ replicate (Suc 0) Get" by simp
  then show ?case by blast
next
  case (Cons r rs)
  show ?case
  proof (cases r)
    case (Msg ch evkey)
    obtain out b where step: "monitor_step emit ch evkey bus = (out, b)"
      by (cases "monitor_step emit ch evkey bus") blast
    show ?thesis
    proof (cases out)
      case (Inl e)
      with Cons.prems Msg step have "tr' = tr @ replicate (Suc 0) Get" by simp
      then show ?thesis by blast
    next
      case (Inr u)
      with Cons.prems Msg step have "monitor_loop emit rs (tr @ [Get], b) = (ex, tr', bus')"
        by simp
      then obtain n where "tr' = (tr @ [Get]) @ replicate (Suc n) Get"
        using Cons.IH by blast
      then have "tr' = tr @ replicate (Suc (Suc n)) Get"
        by simp
      then show ?thesis by blast
    qed
  next
    case Closed
    with Cons.prems have "tr' = tr @ replicate (Suc 0) Get" by simp
    then show ?thesis by blast
  next
    case (Raises e)
    with Cons.prems have "tr' = tr @ replicate (Suc 0) Get" by simp
    then show ?thesis by blast
  qed
qed

lemma monitor_loop_exits:
  "list_ex ends_loop rs \<Longrightarrow> fst (monitor_loop emit rs (tr, bus)) \<noteq> Waiting"
proof (induction rs arbitrary: tr bus)
  case Nil
  then show ?case by simp
next
  case (Cons r rs)
  then show ?case
    by (cases r) (auto split: sum.splits prod.splits)
qed

lemma store_calls_return:
  "list_all (\<lambda>c. raises c = None) cs \<Longrightarrow> store_calls raises cs tr = (None, tr @ cs)"
  by (induction cs arbitrary: tr) simp_all

text \<open>
  When no call on the store raises, every way out of the loop is followed by the three
  calls of the \<open>finally\<close> block, once and last.
\<close>

lemma monitor_cleanup_when_calls_return:
  assumes "\<And>c. raises c = None" and "list_ex ends_loop rs"
  shows "\<exists>res n bus'. monitor_redis_events emit raises addr db rs bus
     = (Some res,
        [CreateRedis addr, ConfigSet ''notify-keyspace-events'' ''Ex'',
         PSubscribe (''__keyevent@'' @ str_nat db @ ''__*'')]
        @ replicate (Suc n) Get
        @ [Unsubscribe (''__keyevent@'' @ str_nat db @ ''__*''), Close, WaitClosed],
        bus')"
proof -
  let ?opening = "[CreateRedis addr, ConfigSet ''notify-keyspace-events'' ''Ex'',
         PSubscribe (chprefix db)]"
  have pre: "store_calls raises ?opening [] = (None, ?opening)"
    by (simp add: assms(1))
  obtain ex tr1 bus1 where loop: "monitor_loop emit rs (?opening, bus) = (ex, tr1, bus1)"
    by (cases "monitor_loop emit rs (?opening, bus)") blast
  obtain n where gets: "tr1 = ?opening @ replicate (Suc n) Get"
    using monitor_loop_gets [OF loop] by blast
  have fin: "store_calls raises [Unsubscribe (chprefix db), Close, WaitClosed] tr1
      = (None, tr1 @ [Unsubscribe (chprefix db), Close, WaitClosed])"
    by (simp add: assms(1))
  have "ex \<noteq> Waiting"
    using monitor_loop_exits [OF assms(2), of emit ?opening bus] loop by simp
  then have "\<exists>res. monitor_redis_events emit raises addr db rs bus
     = (Some res, tr1 @ [Unsubscribe (chprefix db), Close, WaitClosed], bus1)"
    by (cases ex; simp only: monitor_redis_events_def pre loop fin prod.case option.case
        loop_exit.case simp_thms; blast)
  then obtain res where res: "monitor_redis_events emit raises addr db rs bus
     = (Some res, tr1 @ [Unsubscribe (chprefix db), Close, WaitClosed], bus1)"
    by blast
  have "tr1 @ [Unsubscribe (chprefix db), Close, WaitClosed]
      = [CreateRedis addr, ConfigSet ''notify-keyspace-events'' ''Ex'',
         PSubscribe (''__keyevent@'' @ str_nat db @ ''__*'')]
        @ replicate (Suc n) Get
        @ [Unsubscribe (''__keyevent@'' @ str_nat db @ ''__*''), Close, WaitClosed]"
    by (simp add: gets chprefix_def)
  with res show ?thesis
    by metis
qed

text \<open>
  When \<open>unsubscribe\<close> raises, every way out of the loop ends with that call: \<open>close\<close>
  and \<open>wait_closed\<close> are not made, and the exception of \<open>unsubscribe\<close> is what leaves
  the coroutine, also where the loop had ended normally or by cancellation.
\<close>

lemma monitor_cleanup_cut_short:
  assumes "raises (CreateRedis addr) = None"
    and "raises (ConfigSet ''notify-keyspace-events'' ''Ex'') = None"
    and "raises (PSubscribe (chprefix db)) = None"
    and "raises (Unsubscribe (chprefix db)) = Some e"
    and "list_ex ends_loop rs"
  shows "\<exists>n bus'. monitor_redis_events emit raises addr db rs bus
     = (Some (Inl e),
        [CreateRedis addr, ConfigSet ''notify-keyspace-events'' ''Ex'',
         PSubscribe (''__keyevent@'' @ str_nat db @ ''__*'')]
        @ replicate (Suc n) Get
        @ [Unsubscribe (''__keyevent@'' @ str_nat db @ ''__*'')],
        bus')"
proof -
  let ?opening = "[CreateRedis addr, ConfigSet ''notify-keyspace-events'' ''Ex'',
         PSubscribe (chprefix db)]"
  have pre: "store_calls raises ?opening [] = (None, ?opening)"
    by (simp add: assms(1-3))
  obtain ex tr1 bus1 where loop: "monitor_loop emit rs (?opening, bus) = (ex, tr1, bus1)"
    by (cases "monitor_loop emit rs (?opening, bus)") blast
  obtain n where gets: "tr1 = ?opening @ replicate (Suc n) Get"
    using monitor_loop_gets [OF loop] by blast
  have fin: "store_calls raises [Unsubscribe (chprefix db), Close, WaitClosed] tr1
      = (Some e, tr1 @ [Unsubscribe (chprefix db)])"
    by (simp add: assms(4))
  have "ex \<noteq> Waiting"
    using monitor_loop_exits [OF assms(5), of emit ?opening bus] loop by simp
  then have res: "monitor_redis_events emit raises addr db rs bus
     = (Some (Inl e), tr1 @ [Unsubscribe (chprefix db)], bus1)"
    by (cases ex) (simp_all only: monitor_redis_events_def pre loop fin prod.case option.case
        loop_exit.case simp_thms)
  have "tr1 @ [Unsubscribe (chprefix db)]
      = [CreateRedis addr, ConfigSet ''notify-keyspace-events'' ''Ex'',
         PSubscribe (''__keyevent@'' @ str_nat db @ ''__*'')]
        @ replicate (Suc n) Get
        @ [Unsubscribe (''__keyevent@'' @ str_nat db @ ''__*'')]"
    by (simp add: gets chprefix_def)
  with res show ?thesis
    by metis
qed

text \<open>
  C7, at the input where it fails. The store connection is lost after one expiry
  notification: \<open>get\<close> yields \<open>None\<close>, and \<open>unsubscribe\<close>, called on the lost
  connection, raises. The calls made on the store are the three set-up calls (the
  subscription is made with \<open>psubscribe\<close>), two \<open>get\<close>s and \<open>unsubscribe\<close> with the
  pattern; neither \<open>close\<close> nor \<open>wait_closed\<close> is made, and the exception leaves the
  coroutine.
\<close>

theorem monitor_lost_connection_skips_close:
  "monitor_redis_events (\<lambda>n a log. (Inr (), log @ [(n, a)]))
      (\<lambda>c. if c = Unsubscribe ''__keyevent@1__*''
            then Some (OtherError ''ConnectionClosedError'') else None)
      ''localhost'' 1 [Msg ''__keyevent@1__:expired'' ''shadow:inst-42'', Closed] []
     = (Some (Inl (OtherError ''ConnectionClosedError'')),
        [CreateRedis ''localhost'', ConfigSet ''notify-keyspace-events'' ''Ex'',
         PSubscribe ''__keyevent@1__*'', Get, Get, Unsubscribe ''__keyevent@1__*''],
        [(''instance_terminated'', [''agent-lost'', ''inst-42''])])"
proof -
  have ch: "''__keyevent@1__:expired'' = keyevent_channel (Suc 0) ''expired''"
    by (simp add: keyevent_channel_def digit_char_def)
  have pat: "chprefix (Suc 0) = ''__keyevent@1__*''"
    by (simp add: chprefix_def digit_char_def)
  have step: "monitor_step (\<lambda>n a log. (Inr (), log @ [(n, a)])) ''__keyevent@1__:expired''
      ''shadow:inst-42'' [] = (Inr (), [(''instance_terminated'', [''agent-lost'', ''inst-42''])])"
    using monitor_step_expired_shadow
      [of "\<lambda>n a log. (Inr (), log @ [(n, a)])" "Suc 0" "''inst-42''" "[]"]
    by (simp add: ch [symmetric])
  show ?thesis
    by (simp add: monitor_redis_events_def pat step)
qed

text \<open>The same run on a connection whose calls all return: the cleanup is complete.\<close>

lemma monitor_cancelled_scenario:
  "monitor_redis_events (\<lambda>n a log. (Inr (), log @ [(n, a)])) (\<lambda>c. None)
      ''localhost'' 1 [Msg ''__keyevent@1__:expired'' ''shadow:inst-42'', Raises CancelledError] []
     = (Some (Inr ()),
        [CreateRedis ''localhost'', ConfigSet ''notify-keyspace-events'' ''Ex'',
         PSubscribe ''__keyevent@1__*'', Get, Get,
         Unsubscribe ''__keyevent@1__*'', Close, WaitClosed],
        [(''instance_terminated'', [''agent-lost'', ''inst-42''])])"
proof -
  have ch: "''__keyevent@1__:expired'' = keyevent_channel (Suc 0) ''expired''"
    by (simp add: keyevent_channel_def digit_char_def)
  have pat: "chprefix (Suc 0) = ''__keyevent@1__*''"
    by (simp add: chprefix_def digit_char_def)
  have step: "monitor_step (\<lambda>n a log. (Inr (), log @ [(n, a)])) ''__keyevent@1__:expired''
      ''shadow:inst-42'' [] = (Inr (), [(''instance_terminated'', [''agent-lost'', ''inst-42''])])"
    using monitor_step_expired_shadow
      [of "\<lambda>n a log. (Inr (), log @ [(n, a)])" "Suc 0" "''inst-42''" "[]"]
    by (simp add: ch [symmetric])
  show ?thesis
    by (simp add: monitor_redis_events_def pat step)
qed

end
